theory Spec2Isabelle
  imports Main "HOL-Library.Word" "HOL-Library.Sublist"
begin

section \<open>JavaScript strings\<close>

text \<open>
  A JavaScript string is a sequence of UTF-16 code units. The handlers of
  \<^verbatim>\<open>src/app/api/download/tiktok/route.ts\<close> and the page
  \<^verbatim>\<open>src/app/page.tsx\<close> only compare, concatenate and scan strings, so a list
  of 16-bit words is the whole data model of a string.
\<close>

type_synonym jschar = "16 word"
type_synonym jsstring = "jschar list"

text \<open>The code units of an ASCII literal of the source.\<close>

definition js :: "string \<Rightarrow> jsstring" where
  "js s = map (\<lambda>c. of_nat (of_char c)) s"

subsection \<open>Line terminators and white space\<close>

text \<open>
  ECMAScript \<^verbatim>\<open>LineTerminator\<close>: LF, CR, U+2028, U+2029. The dot of a regular
  expression without the \<^verbatim>\<open>s\<close> flag matches every code unit but these.
\<close>

definition isLineTerminator :: "jschar \<Rightarrow> bool" where
  "isLineTerminator c = (c = 0x000A \<or> c = 0x000D \<or> c = 0x2028 \<or> c = 0x2029)"

text \<open>ECMAScript \<^verbatim>\<open>WhiteSpace\<close> (TAB, VT, FF, U+FEFF and the category Zs).\<close>

definition isWhiteSpace :: "jschar \<Rightarrow> bool" where
  "isWhiteSpace c =
     (c = 0x0009 \<or> c = 0x000B \<or> c = 0x000C \<or> c = 0xFEFF \<or> c = 0x0020 \<or> c = 0x00A0
      \<or> c = 0x1680 \<or> (0x2000 \<le> c \<and> c \<le> 0x200A) \<or> c = 0x202F \<or> c = 0x205F
      \<or> c = 0x3000)"

text \<open>\<^verbatim>\<open>String.prototype.trim\<close>: strips white space and line terminators at both ends.\<close>

definition trim :: "jsstring \<Rightarrow> jsstring" where
  "trim s =
     rev (dropWhile (\<lambda>c. isWhiteSpace c \<or> isLineTerminator c)
       (rev (dropWhile (\<lambda>c. isWhiteSpace c \<or> isLineTerminator c) s)))"

section \<open>Regular expressions\<close>

text \<open>
  The fragment of ECMAScript patterns that the source uses: literal text, the dot,
  the assertion \<^verbatim>\<open>^\<close>, sequence, alternative, \<^verbatim>\<open>?\<close> and \<^verbatim>\<open>+\<close> (both greedy).
\<close>

datatype rx =
    Bol
  | Lit jsstring
  | Dot
  | Seq rx rx
  | Alt rx rx
  | Opt rx
  | Plus rx

text \<open>
  A matcher state is the index reached in the input and the input that is left there.
  The matcher returns the states in which a match of the pattern can end, in the
  order in which backtracking tries them.
\<close>

type_synonym mstate = "nat \<times> jsstring"

text \<open>
  One or more greedy iterations of a matcher. After an iteration that consumed input
  the next one is tried first; an iteration that consumed nothing is not repeated
  (the empty check of \<^verbatim>\<open>RepeatMatcher\<close>). Every further iteration shortens the input,
  so \<open>Suc (length input)\<close> rounds are all there can be.
\<close>

primrec repeat :: "nat \<Rightarrow> (mstate \<Rightarrow> mstate list) \<Rightarrow> mstate \<Rightarrow> mstate list" where
  "repeat 0 m st = []"
| "repeat (Suc n) m st =
     concat (map (\<lambda>st'. (if length (snd st') < length (snd st) then repeat n m st' else []) @ [st'])
       (m st))"

fun matcher :: "rx \<Rightarrow> mstate \<Rightarrow> mstate list" where
  "matcher Bol (i, t) = (if i = 0 then [(i, t)] else [])"
| "matcher (Lit l) (i, t) = (if prefix l t then [(i + length l, drop (length l) t)] else [])"
| "matcher Dot (i, t) =
     (case t of [] \<Rightarrow> [] | c # cs \<Rightarrow> if isLineTerminator c then [] else [(Suc i, cs)])"
| "matcher (Seq a b) (i, t) = concat (map (matcher b) (matcher a (i, t)))"
| "matcher (Alt a b) (i, t) = matcher a (i, t) @ matcher b (i, t)"
| "matcher (Opt a) (i, t) = matcher a (i, t) @ [(i, t)]"
| "matcher (Plus a) (i, t) = repeat (Suc (length t)) (matcher a) (i, t)"

text \<open>
  \<^verbatim>\<open>RegExp.prototype.test\<close> for a pattern without the global and sticky flags: a match
  is tried at every index of the input, from 0 to its length.
\<close>

definition rx_test :: "rx \<Rightarrow> jsstring \<Rightarrow> bool" where
  "rx_test r s = list_ex (\<lambda>i. matcher r (i, drop i s) \<noteq> []) [0..<Suc (length s)]"

section \<open>The TikTok URL pattern\<close>

text \<open>
  \<^verbatim>\<open>/^(https?:\/\/)?(www\.)?(tiktok\.com|vm\.tiktok\.com)\/.+/\<close>, the same literal
  in \<^verbatim>\<open>route.ts\<close> (line 56) and in \<^verbatim>\<open>page.tsx\<close> (line 39).
\<close>

definition tiktokRegex :: rx where
  "tiktokRegex =
     Seq Bol
    (Seq (Opt (Seq (Lit (js ''http'')) (Seq (Opt (Lit (js ''s''))) (Lit (js ''://'')))))
    (Seq (Opt (Lit (js ''www.'')))
    (Seq (Alt (Lit (js ''tiktok.com'')) (Lit (js ''vm.tiktok.com'')))
    (Seq (Lit (js ''/''))
         (Plus Dot)))))"

definition tiktokRegex_test :: "jsstring \<Rightarrow> bool" where
  "tiktokRegex_test s = rx_test tiktokRegex s"


section \<open>The page: \<^verbatim>\<open>validateUrl\<close>\<close>

text \<open>
  \<^verbatim>\<open>validateUrl\<close> of \<^verbatim>\<open>page.tsx\<close> (lines 33 to 47). It returns its verdict and
  calls \<^verbatim>\<open>setError\<close>; the second component is the value the error state is set to
  (\<open>None\<close> for \<^verbatim>\<open>null\<close>).
\<close>

definition validateUrl :: "jsstring \<Rightarrow> bool \<times> jsstring option" where
  "validateUrl url =
     (if trim url = [] then
        (False, Some (js ''Por favor, insira um link v'' @ [0x00E1] @ js ''lido''))
      else if \<not> tiktokRegex_test url then
        (False, Some (js ''Link inv'' @ [0x00E1] @ js ''lido do TikTok''))
      else (True, None))"

section \<open>Exceptions, promises and the data of the route\<close>

text \<open>
  A thrown value is an \<^verbatim>\<open>Error\<close> with its message, or something else. A call that can
  throw, or a promise that can reject, yields an outcome.
\<close>

datatype exn = Error jsstring | Thrown

datatype 'a outcome = Throws exn | Returns 'a

text \<open>
  The interfaces of \<^verbatim>\<open>route.ts\<close> (lines 3 to 35). The documents are JSON objects whose
  properties have the declared types; a property that a document may leave out is an
  option (\<open>None\<close> is \<^verbatim>\<open>undefined\<close>).
\<close>

record TikTokDownloadRequest =
  url :: "jsstring option"

record TikWMAuthor =
  nickname :: "jsstring option"
  unique_id :: "jsstring option"

record TikWMData =
  id' :: "jsstring option"
  title :: "jsstring option"
  cover :: "jsstring option"
  author :: "TikWMAuthor option"
  play :: "jsstring option"
  wmplay :: "jsstring option"
  music :: "jsstring option"

record TikWMResponse =
  code :: int
  msg :: jsstring
  data :: "TikWMData option"

text \<open>The \<^verbatim>\<open>data\<close> object of \<^verbatim>\<open>TikTokDownloadResponse\<close>.\<close>

record ResolvedMedia =
  title :: jsstring
  thumbnail :: "jsstring option"
  author :: "jsstring option"
  description :: "jsstring option"
  downloadUrl :: "jsstring option"
  noWatermarkUrl :: "jsstring option"

record TikTokDownloadResponse =
  success :: bool
  message :: jsstring
  data :: "ResolvedMedia option"

subsection \<open>Requests, responses and what a handler does to the outside\<close>

type_synonym header_list = "(jsstring \<times> jsstring) list"

text \<open>
  What the handlers read of a \<^verbatim>\<open>NextRequest\<close>: the promise of \<^verbatim>\<open>request.json()\<close> and
  the query parameters of \<^verbatim>\<open>request.nextUrl.searchParams\<close>, in the order of the URL.
\<close>

record NextRequest =
  request_json :: "TikTokDownloadRequest outcome"
  searchParams :: "(jsstring \<times> jsstring) list"

text \<open>\<^verbatim>\<open>URLSearchParams.get\<close>: the first value of the name, \<^verbatim>\<open>null\<close> when there is none.\<close>

definition searchParams_get :: "(jsstring \<times> jsstring) list \<Rightarrow> jsstring \<Rightarrow> jsstring option" where
  "searchParams_get ps name = map_of ps name"

text \<open>
  What the handlers read of the \<^verbatim>\<open>Response\<close> that \<^verbatim>\<open>fetch\<close> resolves to. The body is
  read once, through \<^verbatim>\<open>json()\<close> by \<^verbatim>\<open>POST\<close> and through \<^verbatim>\<open>arrayBuffer()\<close> by \<^verbatim>\<open>GET\<close>.
\<close>

record Response =
  status :: nat
  json :: "TikWMResponse outcome"
  arrayBuffer :: "8 word list outcome"

text \<open>\<^verbatim>\<open>Response.ok\<close>: the status is in the range 200 to 299.\<close>

definition ok :: "Response \<Rightarrow> bool" where
  "ok r = (200 \<le> status r \<and> status r \<le> 299)"

text \<open>The network: the outcome of \<^verbatim>\<open>fetch(url, {headers})\<close>.\<close>

type_synonym fetch_fn = "jsstring \<Rightarrow> header_list \<Rightarrow> Response outcome"

text \<open>
  The body a handler answers with: the JSON object of an error (\<^verbatim>\<open>error\<close> and, in the
  catch blocks, \<^verbatim>\<open>details\<close>), the JSON object of a resolved video, or bytes.
\<close>

datatype payload =
    ErrorJson jsstring "jsstring option"
  | DownloadJson TikTokDownloadResponse
  | Bytes "8 word list"

text \<open>
  A \<^verbatim>\<open>NextResponse\<close>: the status, the headers that the handler passes, the body.
\<close>

datatype NextResponse = NextResponse (init_status: nat) (init_headers: header_list) (init_body: payload)

text \<open>The \<^verbatim>\<open>data\<close> field of the JSON body of a response, if it has one.\<close>

definition data_field :: "NextResponse \<Rightarrow> ResolvedMedia option" where
  "data_field r =
     (case init_body r of DownloadJson d \<Rightarrow> TikTokDownloadResponse.data d | _ \<Rightarrow> None)"

definition header_of :: "NextResponse \<Rightarrow> jsstring \<Rightarrow> jsstring option" where
  "header_of r name = map_of (init_headers r) name"

text \<open>The arguments of a console call, and the effects of a handler in their order.\<close>

datatype logged =
    LogString jsstring
  | LogNumber nat
  | LogEnvelope TikWMResponse
  | LogExn exn

datatype event =
    ConsoleLog "logged list"
  | ConsoleError "logged list"
  | FetchCall jsstring header_list

fun fetch_calls :: "event list \<Rightarrow> (jsstring \<times> header_list) list" where
  "fetch_calls [] = []"
| "fetch_calls (FetchCall u h # es) = (u, h) # fetch_calls es"
| "fetch_calls (_ # es) = fetch_calls es"

fun console_errors :: "event list \<Rightarrow> logged list list" where
  "console_errors [] = []"
| "console_errors (ConsoleError a # es) = a # console_errors es"
| "console_errors (_ # es) = console_errors es"

section \<open>Built-in functions the route calls\<close>

subsection \<open>\<^verbatim>\<open>encodeURIComponent\<close>\<close>

text \<open>
  ECMAScript \<^verbatim>\<open>Encode\<close> with the unreserved set of \<^verbatim>\<open>encodeURIComponent\<close>: letters,
  digits and \<^verbatim>\<open>- _ . ! ~ * ' ( )\<close> stay; every other code point is written as the
  percent-escaped octets of its UTF-8 form; a surrogate without its partner throws a
  \<^verbatim>\<open>URIError\<close>.
\<close>

definition isAlnum :: "jschar \<Rightarrow> bool" where
  "isAlnum c = ((0x41 \<le> c \<and> c \<le> 0x5A) \<or> (0x61 \<le> c \<and> c \<le> 0x7A) \<or> (0x30 \<le> c \<and> c \<le> 0x39))"

definition uriUnescaped :: "jschar \<Rightarrow> bool" where
  "uriUnescaped c = (isAlnum c \<or> c \<in> set (js ''-_.!~*()'') \<or> c = 0x27)"

definition hexDigit :: "nat \<Rightarrow> jschar" where
  "hexDigit n = (if n < 10 then of_nat (0x30 + n) else of_nat (0x41 + (n - 10)))"

definition percent :: "nat \<Rightarrow> jsstring" where
  "percent octet = [0x25, hexDigit (octet div 16), hexDigit (octet mod 16)]"

definition utf8 :: "nat \<Rightarrow> nat list" where
  "utf8 v =
     (if v < 0x80 then [v]
      else if v < 0x800 then [0xC0 + v div 64, 0x80 + v mod 64]
      else if v < 0x10000 then [0xE0 + v div 4096, 0x80 + (v div 64) mod 64, 0x80 + v mod 64]
      else [0xF0 + v div 262144, 0x80 + (v div 4096) mod 64, 0x80 + (v div 64) mod 64,
            0x80 + v mod 64])"

definition isLeadSurrogate :: "jschar \<Rightarrow> bool" where
  "isLeadSurrogate c = (0xD800 \<le> c \<and> c \<le> 0xDBFF)"

definition isTrailSurrogate :: "jschar \<Rightarrow> bool" where
  "isTrailSurrogate c = (0xDC00 \<le> c \<and> c \<le> 0xDFFF)"

definition URIError :: exn where
  "URIError = Error (js ''URI malformed'')"

definition escaped :: "nat \<Rightarrow> jsstring outcome \<Rightarrow> jsstring outcome" where
  "escaped v rest =
     (case rest of Throws e \<Rightarrow> Throws e | Returns r \<Rightarrow> Returns (concat (map percent (utf8 v)) @ r))"

fun encodeURIComponent :: "jsstring \<Rightarrow> jsstring outcome" where
  "encodeURIComponent [] = Returns []"
| "encodeURIComponent (c # cs) =
     (if uriUnescaped c then
        (case encodeURIComponent cs of Throws e \<Rightarrow> Throws e | Returns r \<Rightarrow> Returns (c # r))
      else if isTrailSurrogate c then Throws URIError
      else if \<not> isLeadSurrogate c then escaped (unat c) (encodeURIComponent cs)
      else
        (case cs of
           [] \<Rightarrow> Throws URIError
         | d # ds \<Rightarrow>
             if \<not> isTrailSurrogate d then Throws URIError
             else escaped ((unat c - 0xD800) * 0x400 + (unat d - 0xDC00) + 0x10000)
                    (encodeURIComponent ds)))"

subsection \<open>\<^verbatim>\<open>Number.prototype.toString\<close> on a byte count\<close>

fun Number_toString :: "nat \<Rightarrow> jsstring" where
  "Number_toString n =
     (if n < 10 then [of_nat (0x30 + n)]
      else Number_toString (n div 10) @ [of_nat (0x30 + n mod 10)])"

declare Number_toString.simps [simp del]

text \<open>The number that a string of decimal digits denotes.\<close>

definition decimal_value :: "jsstring \<Rightarrow> nat" where
  "decimal_value s = foldl (\<lambda>acc c. 10 * acc + (unat c - 0x30)) 0 s"

subsection \<open>\<^verbatim>\<open>new NextResponse(body, {headers})\<close>\<close>

text \<open>
  The constructor fills a \<^verbatim>\<open>Headers\<close> object from the record it is given, and this
  can throw. Each value is converted to a \<^verbatim>\<open>ByteString\<close>, which throws a \<^verbatim>\<open>TypeError\<close>
  at the first code unit above 0xFF; HTTP white space (tab, LF, CR, space) is then
  stripped at both ends; what is left must hold no NUL, LF or CR, or the constructor
  throws a \<^verbatim>\<open>TypeError\<close>. The names that the route passes are valid header names. The
  texts of the two messages are those of Node.
\<close>

definition isHTTPWhitespace :: "jschar \<Rightarrow> bool" where
  "isHTTPWhitespace c = (c = 0x09 \<or> c = 0x0A \<or> c = 0x0D \<or> c = 0x20)"

definition headerValueNormalize :: "jsstring \<Rightarrow> jsstring" where
  "headerValueNormalize v = rev (dropWhile isHTTPWhitespace (rev (dropWhile isHTTPWhitespace v)))"

definition ByteString_TypeError :: "nat \<Rightarrow> jschar \<Rightarrow> exn" where
  "ByteString_TypeError index c =
     Error (js ''Cannot convert argument to a ByteString because the character at index ''
            @ Number_toString index @ js '' has a value of '' @ Number_toString (unat c)
            @ js '' which is greater than 255.'')"

definition header_value_TypeError :: "jsstring \<Rightarrow> exn" where
  "header_value_TypeError v =
     Error (js ''Headers.append: '' @ [0x22] @ v @ [0x22] @ js '' is an invalid header value.'')"

definition header_value :: "jsstring \<Rightarrow> jsstring outcome" where
  "header_value v =
     (case dropWhile (\<lambda>c. c \<le> 0xFF) v of
        c # _ \<Rightarrow> Throws (ByteString_TypeError (length (takeWhile (\<lambda>c. c \<le> 0xFF) v)) c)
      | [] \<Rightarrow>
          (let w = headerValueNormalize v in
           if list_ex (\<lambda>c. c = 0x00 \<or> c = 0x0A \<or> c = 0x0D) w
           then Throws (header_value_TypeError w)
           else Returns w))"

fun Headers_new :: "header_list \<Rightarrow> header_list outcome" where
  "Headers_new [] = Returns []"
| "Headers_new ((name, v) # hs) =
     (case header_value v of
        Throws e \<Rightarrow> Throws e
      | Returns w \<Rightarrow>
          (case Headers_new hs of
             Throws e \<Rightarrow> Throws e
           | Returns ws \<Rightarrow> Returns ((name, w) # ws)))"

text \<open>The response has the status 200 when the handler gives none.\<close>

definition NextResponse_new :: "payload \<Rightarrow> header_list \<Rightarrow> NextResponse outcome" where
  "NextResponse_new b hs =
     (case Headers_new hs of
        Throws e \<Rightarrow> Throws e
      | Returns ws \<Rightarrow> Returns (NextResponse 200 ws b))"

text \<open>
  A string that can stand inside a header value: no code unit above 0xFF, no NUL,
  LF or CR.
\<close>

definition header_safe :: "jsstring \<Rightarrow> bool" where
  "header_safe s = list_all (\<lambda>c. c \<le> 0xFF \<and> c \<noteq> 0x00 \<and> c \<noteq> 0x0A \<and> c \<noteq> 0x0D) s"

section \<open>The route \<^verbatim>\<open>/api/download/tiktok\<close>\<close>

definition userAgent :: header_list where
  "userAgent =
     [(js ''User-Agent'',
       js ''Mozilla/5.0 (Windows NT 10.0; Win64; x64) AppleWebKit/537.36'')]"

text \<open>\<^verbatim>\<open>error instanceof Error ? error.message : 'Erro desconhecido'\<close>\<close>

definition error_details :: "exn \<Rightarrow> jsstring" where
  "error_details e = (case e of Error m \<Rightarrow> m | Thrown \<Rightarrow> js ''Erro desconhecido'')"

subsection \<open>\<^verbatim>\<open>POST\<close>: the Resolver\<close>

text \<open>The catch block of \<^verbatim>\<open>POST\<close> (lines 102 to 112), after the effects \<open>es\<close> of the try block.\<close>

definition POST_catch :: "event list \<Rightarrow> exn \<Rightarrow> NextResponse \<times> event list" where
  "POST_catch es e =
     (NextResponse 500 [] (ErrorJson (js ''Erro ao processar o v'' @ [0x00ED] @ js ''deo'')
                                     (Some (error_details e))),
      es @ [ConsoleError [LogString (js ''Erro ao processar download do TikTok:''), LogExn e]])"

text \<open>
  Reading \<^verbatim>\<open>data.author.nickname\<close> when \<^verbatim>\<open>data.author\<close> is \<^verbatim>\<open>undefined\<close> throws a
  \<^verbatim>\<open>TypeError\<close>; this is its message on Node.
\<close>

definition nickname_TypeError :: exn where
  "nickname_TypeError =
     Error (js ''Cannot read properties of undefined (reading '' @ [0x27] @ js ''nickname''
            @ [0x27] @ js '')'')"

text \<open>The object literal of lines 87 to 98. \<^verbatim>\<open>a || b\<close> is \<^verbatim>\<open>b\<close> when \<^verbatim>\<open>a\<close> is
  \<^verbatim>\<open>undefined\<close> or the empty string.\<close>

definition responseData :: "TikWMData \<Rightarrow> TikTokDownloadResponse outcome" where
  "responseData d =
     (case TikWMData.author d of
        None \<Rightarrow> Throws nickname_TypeError
      | Some a \<Rightarrow>
          Returns
            \<lparr> success = True,
              message = js ''V'' @ [0x00ED] @ js ''deo obtido com sucesso'',
              data = Some
                \<lparr> title = (case TikWMData.title d of
                              None \<Rightarrow> js ''TikTok Video''
                            | Some t \<Rightarrow> if t = [] then js ''TikTok Video'' else t),
                  thumbnail = cover d,
                  author = nickname a,
                  description = TikWMData.title d,
                  downloadUrl = play d,
                  noWatermarkUrl = wmplay d \<rparr> \<rparr>)"

text \<open>The answer of lines 76 to 82, after the effects \<open>es\<close>.\<close>

definition POST_upstream_error :: "event list \<Rightarrow> TikWMResponse \<Rightarrow> NextResponse \<times> event list" where
  "POST_upstream_error es tikwmData =
     (NextResponse 500 []
        (ErrorJson (js ''Erro ao obter informa'' @ [0x00E7, 0x00F5] @ js ''es do v'' @ [0x00ED]
                    @ js ''deo do TikTok. Verifique se o link est'' @ [0x00E1] @ js '' correto.'')
                   None),
      es @ [ConsoleError [LogString (js ''TikWM API error:''), LogEnvelope tikwmData]])"

text \<open>
  The handler, lines 42 to 113. The result is the response and the effects in their
  order. In the last \<open>case\<close> the branch \<open>None\<close> is never taken: the test before it
  has excluded it.
\<close>

definition POST :: "fetch_fn \<Rightarrow> NextRequest \<Rightarrow> NextResponse \<times> event list" where
  "POST fetch request =
     (case request_json request of
        Throws e \<Rightarrow> POST_catch [] e
      | Returns body \<Rightarrow>
          (case url body of
             None \<Rightarrow>
               (NextResponse 400 []
                  (ErrorJson (js ''URL '' @ [0x00E9] @ js '' obrigat'' @ [0x00F3] @ js ''ria'') None), [])
           | Some u \<Rightarrow>
               if u = [] then
                 (NextResponse 400 []
                    (ErrorJson (js ''URL '' @ [0x00E9] @ js '' obrigat'' @ [0x00F3] @ js ''ria'') None), [])
               else if \<not> tiktokRegex_test u then
                 (NextResponse 400 []
                    (ErrorJson (js ''URL inv'' @ [0x00E1] @ js ''lida do TikTok'') None), [])
               else
                 (let es1 = [ConsoleLog [LogString (js ''Fetching TikTok video from: '' @ u)]] in
                  case encodeURIComponent u of
                    Throws e \<Rightarrow> POST_catch es1 e
                  | Returns q \<Rightarrow>
                      (let tikwmUrl = js ''https://www.tikwm.com/api/?url='' @ q;
                           es2 = es1 @ [FetchCall tikwmUrl userAgent] in
                       case fetch tikwmUrl userAgent of
                         Throws e \<Rightarrow> POST_catch es2 e
                       | Returns response \<Rightarrow>
                           (case json response of
                              Throws e \<Rightarrow> POST_catch es2 e
                            | Returns tikwmData \<Rightarrow>
                                if \<not> ok response \<or> code tikwmData \<noteq> 0
                                   \<or> TikWMResponse.data tikwmData = None
                                then POST_upstream_error es2 tikwmData
                                else
                                  (case TikWMResponse.data tikwmData of
                                     None \<Rightarrow> POST_upstream_error es2 tikwmData
                                   | Some d \<Rightarrow>
                                       (case responseData d of
                                          Throws e \<Rightarrow> POST_catch es2 e
                                        | Returns rd \<Rightarrow>
                                            (NextResponse 200 [] (DownloadJson rd), es2))))))))"

subsection \<open>\<^verbatim>\<open>GET\<close>: the Relay\<close>

text \<open>The catch block of \<^verbatim>\<open>GET\<close> (lines 162 to 172).\<close>

definition GET_catch :: "event list \<Rightarrow> exn \<Rightarrow> NextResponse \<times> event list" where
  "GET_catch es e =
     (NextResponse 500 [] (ErrorJson (js ''Erro ao baixar o v'' @ [0x00ED] @ js ''deo'')
                                     (Some (error_details e))),
      es @ [ConsoleError [LogString (js ''Erro ao baixar v'' @ [0x00ED] @ js ''deo do TikTok:''),
                          LogExn e]])"

text \<open>\<^verbatim>\<open>searchParams.get('filename') || 'tiktok_video.mp4'\<close> (line 123).\<close>

definition relay_filename :: "NextRequest \<Rightarrow> jsstring" where
  "relay_filename request =
     (case searchParams_get (searchParams request) (js ''filename'') of
        None \<Rightarrow> js ''tiktok_video.mp4''
      | Some f \<Rightarrow> if f = [] then js ''tiktok_video.mp4'' else f)"

text \<open>
  The handler, lines 119 to 173. Building the response (lines 153 to 160) is inside
  the try block: when the constructor throws, the catch block answers.
\<close>

definition GET :: "fetch_fn \<Rightarrow> NextRequest \<Rightarrow> NextResponse \<times> event list" where
  "GET fetch request =
     (let videoUrl = searchParams_get (searchParams request) (js ''url'');
          filename = relay_filename request in
      case videoUrl of
        None \<Rightarrow>
          (NextResponse 400 []
             (ErrorJson (js ''URL do v'' @ [0x00ED] @ js ''deo '' @ [0x00E9] @ js '' obrigat''
                         @ [0x00F3] @ js ''ria'') None), [])
      | Some v \<Rightarrow>
          if v = [] then
            (NextResponse 400 []
               (ErrorJson (js ''URL do v'' @ [0x00ED] @ js ''deo '' @ [0x00E9] @ js '' obrigat''
                           @ [0x00F3] @ js ''ria'') None), [])
          else
            (let es1 = [ConsoleLog [LogString (js ''Downloading TikTok video from: '' @ v)],
                        FetchCall v userAgent] in
             case fetch v userAgent of
               Throws e \<Rightarrow> GET_catch es1 e
             | Returns response \<Rightarrow>
                 if \<not> ok response then
                   (NextResponse 500 []
                      (ErrorJson (js ''Falha ao baixar o v'' @ [0x00ED]
                                  @ js ''deo do servidor do TikTok'') None),
                    es1 @ [ConsoleError [LogString (js ''Failed to fetch video:''),
                                         LogNumber (status response)]])
                 else
                   (case arrayBuffer response of
                      Throws e \<Rightarrow> GET_catch es1 e
                    | Returns videoBuffer \<Rightarrow>
                        (case NextResponse_new (Bytes videoBuffer)
                                [(js ''Content-Type'', js ''video/mp4''),
                                 (js ''Content-Disposition'',
                                  js ''attachment; filename='' @ [0x22] @ filename @ [0x22]),
                                 (js ''Content-Length'', Number_toString (length videoBuffer)),
                                 (js ''Cache-Control'', js ''public, max-age=3600'')] of
                           Throws e \<Rightarrow> GET_catch es1 e
                         | Returns r \<Rightarrow> (r, es1)))))"

section \<open>The page: the name of the file it asks the Relay for\<close>

text \<open>
  \<^verbatim>\<open>filename.replace(/[^a-z0-9]/gi, '_')\<close> (\<^verbatim>\<open>page.tsx\<close>, line 88): every code unit that
  is not a letter of \<^verbatim>\<open>a-z\<close>, \<^verbatim>\<open>A-Z\<close> or a digit becomes an underscore. This is the only
  place of the repository that sanitizes a file name.
\<close>

definition sanitizedFilename :: "jsstring \<Rightarrow> jsstring" where
  "sanitizedFilename filename = map (\<lambda>c. if isAlnum c then c else 0x5F) filename"

section \<open>The URL pattern in the words of the specification\<close>

text \<open>
  The twelve ways to write ``optional scheme, optional \<^verbatim>\<open>www.\<close>, host
  \<^verbatim>\<open>tiktok.com\<close> or \<^verbatim>\<open>vm.tiktok.com\<close>, then \<^verbatim>\<open>/\<close>''.
\<close>

definition url_prefixes :: "jsstring list" where
  "url_prefixes =
     concat (map (\<lambda>scheme. concat (map (\<lambda>www. map (\<lambda>host. scheme @ www @ host @ js ''/'')
         [js ''tiktok.com'', js ''vm.tiktok.com''])
       [[], js ''www.'']))
     [[], js ''http://'', js ''https://''])"

text \<open>
  The specification's contract of the validator, word for word: one of these
  prefixes, ``and at least one more character''.
\<close>

definition spec_url_pattern :: "jsstring \<Rightarrow> bool" where
  "spec_url_pattern s = list_ex (\<lambda>p. prefix p s \<and> length p < length s) url_prefixes"

text \<open>
  The same, with the character after the slash restricted to what the dot of the
  pattern accepts: any code unit that is not a line terminator.
\<close>

definition url_pattern_dot :: "jsstring \<Rightarrow> bool" where
  "url_pattern_dot s =
     list_ex (\<lambda>p. prefix p s \<and> length p < length s \<and> \<not> isLineTerminator (s ! length p)) url_prefixes"

definition next_ok :: "jsstring \<Rightarrow> jsstring \<Rightarrow> bool" where
  "next_ok p s = (\<exists>c cs. s = p @ c # cs \<and> \<not> isLineTerminator c)"

section \<open>File names in the \<^verbatim>\<open>Content-Disposition\<close> header\<close>

text \<open>
  A sanitized file name, as the page builds them (the sanitized title of line 88 and
  the extension \<^verbatim>\<open>.mp4\<close> of line 91): letters, digits, underscores and dots only.
\<close>

definition sanitized :: "jsstring \<Rightarrow> bool" where
  "sanitized name = list_all (\<lambda>c. isAlnum c \<or> c = 0x5F \<or> c = 0x2E) name"

text \<open>
  The file name that a response announces: the text between the quotes of
  \<^verbatim>\<open>attachment; filename="..."\<close>.
\<close>

definition content_disposition_filename :: "NextResponse \<Rightarrow> jsstring option" where
  "content_disposition_filename r =
     (case header_of r (js ''Content-Disposition'') of
        None \<Rightarrow> None
      | Some v \<Rightarrow>
          (let pre = js ''attachment; filename='' @ [0x22] in
           if prefix pre v \<and> length pre < length v \<and> last v = 0x22
           then Some (butlast (drop (length pre) v)) else None))"

section \<open>Scenarios\<close>

text \<open>
  The example of the specification: the page URL
  \<^verbatim>\<open>https://www.tiktok.com/@demo/video/123\<close>, the request that the Resolver sends
  upstream for it, and the upstream answer with the video ``Funny Cat''.
\<close>

definition demo_url :: jsstring where
  "demo_url = js ''https://www.tiktok.com/@demo/video/123''"

definition demo_api_url :: jsstring where
  "demo_api_url = js ''https://www.tikwm.com/api/?url=https%3A%2F%2Fwww.tiktok.com%2F%40demo%2Fvideo%2F123''"

definition demo_request :: NextRequest where
  "demo_request = \<lparr> request_json = Returns \<lparr> url = Some demo_url \<rparr>, searchParams = [] \<rparr>"

definition demo_data :: TikWMData where
  "demo_data = \<lparr> id' = None, title = Some (js ''Funny Cat''),
     cover = Some (js ''http://x/thumb.jpg''),
     author = Some \<lparr> nickname = Some (js ''DemoUser''), unique_id = None \<rparr>,
     play = Some (js ''http://x/wm.mp4''), wmplay = Some (js ''http://x/nowm.mp4''),
     music = None \<rparr>"

definition demo_envelope :: TikWMResponse where
  "demo_envelope = \<lparr> code = 0, msg = js ''success'', data = Some demo_data \<rparr>"

text \<open>
  A metadata service that answers the request for the example with the given status
  and envelope, and is unreachable for any other request.
\<close>

definition upstream :: "nat \<Rightarrow> TikWMResponse \<Rightarrow> fetch_fn" where
  "upstream st envelope u h =
     (if u = demo_api_url \<and> h = userAgent
      then Returns \<lparr> status = st, json = Returns envelope, arrayBuffer = Throws Thrown \<rparr>
      else Throws (Error (js ''fetch failed'')))"

text \<open>Other requests and envelopes: a malformed link, an upstream error, a video
  without author, a video with an empty title.\<close>

definition invalid_request :: NextRequest where
  "invalid_request = \<lparr> request_json = Returns \<lparr> url = Some (js ''not-a-url'') \<rparr>, searchParams = [] \<rparr>"

definition failed_envelope :: TikWMResponse where
  "failed_envelope = \<lparr> code = - 1, msg = js ''Url parsing is failed!'', data = None \<rparr>"

definition no_author_envelope :: TikWMResponse where
  "no_author_envelope = \<lparr> code = 0, msg = js ''success'', data = Some (demo_data \<lparr> TikWMData.author := None \<rparr>) \<rparr>"

definition untitled_envelope :: TikWMResponse where
  "untitled_envelope = \<lparr> code = 0, msg = js ''success'', data = Some (demo_data \<lparr> TikWMData.title := Some [] \<rparr>) \<rparr>"

text \<open>
  A media host that serves the given bytes with the given status at
  \<^verbatim>\<open>http://x/wm.mp4\<close>, and a request to the Relay with the given query parameters.
\<close>

definition bad_gateway :: fetch_fn where
  "bad_gateway u h =
     Returns \<lparr> status = 502,
               json = Throws (Error (js ''Unexpected token < in JSON at position 0'')),
               arrayBuffer = Throws Thrown \<rparr>"

definition media_url :: jsstring where
  "media_url = js ''http://x/wm.mp4''"

definition media_host :: "nat \<Rightarrow> 8 word list \<Rightarrow> fetch_fn" where
  "media_host st bytes u h =
     (if u = media_url \<and> h = userAgent
      then Returns \<lparr> status = st, json = Throws (Error (js ''Unexpected token'')),
                     arrayBuffer = Returns bytes \<rparr>
      else Throws (Error (js ''fetch failed'')))"

definition relay_request :: "(jsstring \<times> jsstring) list \<Rightarrow> NextRequest" where
  "relay_request ps = \<lparr> request_json = Throws (Error (js ''Unexpected end of JSON input'')),
                         searchParams = ps \<rparr>"

text \<open>The file name \<^verbatim>\<open>a"b.mp4\<close>.\<close>

definition quoted_name :: jsstring where
  "quoted_name = js ''a'' @ [0x22] @ js ''b.mp4''"

section \<open>The pattern, match by match\<close>

text \<open>What the matcher of each construct contributes to a match of a sequence.\<close>

lemma Lit_ex:
  "(\<exists>st' \<in> set (matcher (Lit l) st). Q st') \<longleftrightarrow> (\<exists>t'. snd st = l @ t' \<and> Q (fst st + length l, t'))"
  by (cases st) (auto simp: prefix_def)

lemma Seq_ex:
  "(\<exists>st' \<in> set (matcher (Seq a b) st). Q st') \<longleftrightarrow> (\<exists>st1 \<in> set (matcher a st). \<exists>st' \<in> set (matcher b st1). Q st')"
  by (cases st) auto

lemma Alt_ex:
  "(\<exists>st' \<in> set (matcher (Alt a b) st). Q st') \<longleftrightarrow>
     (\<exists>st' \<in> set (matcher a st). Q st') \<or> (\<exists>st' \<in> set (matcher b st). Q st')"
  by (cases st) auto

lemma Opt_ex:
  "(\<exists>st' \<in> set (matcher (Opt a) st). Q st') \<longleftrightarrow> (\<exists>st' \<in> set (matcher a st). Q st') \<or> Q st"
  by (cases st) auto

lemma PlusDot: "matcher (Plus Dot) st \<noteq> [] \<longleftrightarrow> (\<exists>c cs. snd st = c # cs \<and> \<not> isLineTerminator c)"
  by (cases st; cases "snd st") auto

lemma Seq_nonempty:
  "matcher (Seq a b) st \<noteq> [] \<longleftrightarrow> (\<exists>st' \<in> set (matcher a st). matcher b st' \<noteq> [])"
  by (cases st) auto

text \<open>A pattern that starts with \<^verbatim>\<open>^\<close> can only match at index 0.\<close>

lemma rx_test_Bol: "rx_test (Seq Bol r) s = (matcher r (0, s) \<noteq> [])"
proof -
  have "list_ex (\<lambda>i. matcher (Seq Bol r) (i, drop i s) \<noteq> []) [0..<Suc n] = (matcher r (0, s) \<noteq> [])" for n
    by (induction n) auto
  then show ?thesis by (simp only: rx_test_def)
qed

lemma prefix_next:
  "(prefix p s \<and> length p < length s \<and> \<not> isLineTerminator (s ! length p)) = next_ok p s"
proof
  assume a: "prefix p s \<and> length p < length s \<and> \<not> isLineTerminator (s ! length p)"
  then obtain t where t: "s = p @ t" by (auto simp: prefix_def)
  with a have "t \<noteq> []" by auto
  then obtain c cs where "t = c # cs" by (cases t) auto
  with a t show "next_ok p s" by (auto simp: next_ok_def)
next
  assume "next_ok p s"
  then show "prefix p s \<and> length p < length s \<and> \<not> isLineTerminator (s ! length p)"
    by (auto simp: next_ok_def)
qed

lemma regex_chain:
  "tiktokRegex_test s =
    (\<exists>scheme \<in> {[], js ''http'' @ js ''://'', js ''http'' @ js ''s'' @ js ''://''}.
     \<exists>www \<in> {[], js ''www.''}. \<exists>host \<in> {js ''tiktok.com'', js ''vm.tiktok.com''}.
       next_ok (scheme @ www @ host @ js ''/'') s)"
  unfolding tiktokRegex_test_def tiktokRegex_def rx_test_Bol Seq_nonempty Seq_ex Opt_ex Alt_ex Lit_ex PlusDot next_ok_def
  apply simp
  apply (rule iffI)
   apply (elim disjE exE conjE; simp)
  apply (elim disjE exE conjE; simp)
  done

lemma js_append: "js a @ js b = js (a @ b)"
  by (simp add: js_def)

lemma tiktokRegex_test_iff: "tiktokRegex_test s = url_pattern_dot s"
  unfolding regex_chain url_pattern_dot_def url_prefixes_def prefix_next
  by (simp add: js_append)

text \<open>
  A string that matches starts with \<^verbatim>\<open>h\<close>, \<^verbatim>\<open>w\<close>, \<^verbatim>\<open>t\<close> or \<^verbatim>\<open>v\<close>; so it is not
  empty, and trimming it leaves something.
\<close>

lemma first_code_unit:
  assumes "tiktokRegex_test s"
  shows "\<exists>c cs. s = c # cs \<and> c \<in> {0x68, 0x77, 0x74, 0x76}"
proof -
  from assms obtain scheme www host where
    "scheme \<in> {[], js ''http'' @ js ''://'', js ''http'' @ js ''s'' @ js ''://''}"
    "www \<in> {[], js ''www.''}" "host \<in> {js ''tiktok.com'', js ''vm.tiktok.com''}"
    "next_ok (scheme @ www @ host @ js ''/'') s"
    unfolding regex_chain by blast
  then show ?thesis
    by (auto simp: next_ok_def js_def)
qed

lemma test_nonempty: "tiktokRegex_test u \<Longrightarrow> u \<noteq> []"
  using first_code_unit by blast

lemma not_test_empty: "\<not> tiktokRegex_test []"
  using test_nonempty by blast

lemma trim_nonempty:
  assumes "\<not> isWhiteSpace c" "\<not> isLineTerminator c"
  shows "trim (c # cs) \<noteq> []"
  using assms by (auto simp: trim_def dropWhile_eq_Nil_conv)

lemma validateUrl_test: "fst (validateUrl s) = tiktokRegex_test s"
proof (cases "tiktokRegex_test s")
  case True
  then obtain c cs where s: "s = c # cs" and c: "c \<in> {0x68, 0x77, 0x74, 0x76}"
    using first_code_unit by blast
  from c have "\<not> isWhiteSpace c" "\<not> isLineTerminator c"
    by (auto simp: isWhiteSpace_def isLineTerminator_def)
  then have "trim s \<noteq> []" unfolding s by (rule trim_nonempty)
  with True show ?thesis by (simp add: validateUrl_def)
next
  case False
  then show ?thesis by (simp add: validateUrl_def)
qed

section \<open>Facts about the scenarios\<close>

lemma demo_url_test: "tiktokRegex_test demo_url"
  by (simp add: demo_url_def tiktokRegex_test_iff url_pattern_dot_def url_prefixes_def js_def isLineTerminator_def)

lemma demo_url_encoded:
  "encodeURIComponent demo_url = Returns (js ''https%3A%2F%2Fwww.tiktok.com%2F%40demo%2Fvideo%2F123'')"
  by (simp add: demo_url_def js_def uriUnescaped_def isAlnum_def isTrailSurrogate_def
      isLeadSurrogate_def escaped_def utf8_def percent_def hexDigit_def)

lemma demo_api_url_eq:
  "js ''https://www.tikwm.com/api/?url='' @ js ''https%3A%2F%2Fwww.tiktok.com%2F%40demo%2Fvideo%2F123'' = demo_api_url"
  by (simp add: demo_api_url_def js_def)

lemma demo_upstream:
  "upstream st envelope
     (js ''https://www.tikwm.com/api/?url='' @ js ''https%3A%2F%2Fwww.tiktok.com%2F%40demo%2Fvideo%2F123'')
     userAgent
   = Returns \<lparr> status = st, json = Returns envelope, arrayBuffer = Throws Thrown \<rparr>"
  by (simp add: upstream_def demo_api_url_eq)

lemma demo_request_json: "request_json demo_request = Returns \<lparr> url = Some demo_url \<rparr>"
  by (simp add: demo_request_def)

lemma ok_200: "ok \<lparr> status = 200, json = j, arrayBuffer = b \<rparr>"
  by (simp add: ok_def)

lemma not_a_url: "\<not> tiktokRegex_test (js ''not-a-url'')"
  by (simp add: tiktokRegex_test_iff url_pattern_dot_def url_prefixes_def js_def)

lemma media_host_reply:
  "media_host st bytes media_url userAgent
     = Returns \<lparr> status = st, json = Throws (Error (js ''Unexpected token'')),
                   arrayBuffer = Returns bytes \<rparr>"
  by (simp add: media_host_def)

lemma media_url_nonempty: "media_url \<noteq> []"
  by (simp add: media_url_def js_def)

lemma relay_request_url:
  "searchParams_get (searchParams (relay_request ((js ''url'', v) # ps))) (js ''url'') = Some v"
  by (simp add: relay_request_def searchParams_get_def)

lemma filename_not_url: "js ''filename'' \<noteq> js ''url''"
  by (simp add: js_def)

lemma relay_request_filename:
  "searchParams_get (searchParams (relay_request [(js ''url'', v), (js ''filename'', f)])) (js ''filename'') = Some f"
  by (simp add: relay_request_def searchParams_get_def filename_not_url)

lemma header_names_distinct: "js ''Content-Disposition'' \<noteq> js ''Content-Type''"
  by (simp add: js_def)

section \<open>Decimal digits\<close>

lemma digit_value:
  assumes "d < 10"
  shows "unat (of_nat (0x30 + d) :: jschar) - 0x30 = d"
proof -
  have "unat (of_nat (0x30 + d) :: jschar) = (0x30 + d) mod 2 ^ LENGTH(16)"
    by (rule unat_of_nat)
  with assms show ?thesis by simp
qed

lemma decimal_value_snoc: "decimal_value (s @ [c]) = 10 * decimal_value s + (unat c - 0x30)"
  by (simp add: decimal_value_def)

lemma decimal_value_Number_toString: "decimal_value (Number_toString n) = n"
proof (induction n rule: Number_toString.induct)
  case (1 n)
  show ?case
  proof (cases "n < 10")
    case True
    then show ?thesis using digit_value[of n]
      by (subst Number_toString.simps) (simp add: decimal_value_def)
  next
    case False
    have "decimal_value (Number_toString n) =
            10 * decimal_value (Number_toString (n div 10))
            + (unat (of_nat (0x30 + n mod 10) :: jschar) - 0x30)"
      using False by (subst Number_toString.simps) (simp add: decimal_value_snoc)
    also have "\<dots> = 10 * (n div 10) + n mod 10"
      using 1[OF False] digit_value[of "n mod 10"] by simp
    finally show ?thesis by simp
  qed
qed

lemma Number_toString_3: "Number_toString (Suc (Suc (Suc 0))) = js ''3''"
  by (subst Number_toString.simps) (simp add: js_def)

section \<open>Header values\<close>

text \<open>
  A value that starts and ends with something else than white space is taken as it is
  when it is safe, and makes the constructor throw when it is not.
\<close>

lemma headerValueNormalize_id:
  assumes "v \<noteq> []" "\<not> isHTTPWhitespace (hd v)" "\<not> isHTTPWhitespace (last v)"
  shows "headerValueNormalize v = v"
proof -
  from assms have a: "dropWhile isHTTPWhitespace v = v" by (cases v) auto
  from assms have "rev v \<noteq> []" "\<not> isHTTPWhitespace (hd (rev v))" by (auto simp: hd_rev)
  then have "dropWhile isHTTPWhitespace (rev v) = rev v" by (cases "rev v") auto
  with a show ?thesis by (simp add: headerValueNormalize_def)
qed

lemma header_value_safe:
  assumes "v \<noteq> []" "\<not> isHTTPWhitespace (hd v)" "\<not> isHTTPWhitespace (last v)" "header_safe v"
  shows "header_value v = Returns v"
proof -
  from assms(4) have d: "dropWhile (\<lambda>c. c \<le> 0xFF) v = []"
    by (auto simp: header_safe_def list_all_iff dropWhile_eq_Nil_conv)
  from assms(4) have "\<not> list_ex (\<lambda>c. c = 0x00 \<or> c = 0x0A \<or> c = 0x0D) v"
    by (auto simp: header_safe_def list_all_iff list_ex_iff)
  then show ?thesis
    unfolding header_value_def d headerValueNormalize_id[OF assms(1-3)] by simp
qed

lemma header_value_unsafe:
  assumes "v \<noteq> []" "\<not> isHTTPWhitespace (hd v)" "\<not> isHTTPWhitespace (last v)" "\<not> header_safe v"
  shows "\<exists>e. header_value v = Throws e"
proof (cases "dropWhile (\<lambda>c. c \<le> 0xFF) v")
  case (Cons c cs)
  then show ?thesis by (simp add: header_value_def)
next
  case Nil
  then have le: "\<forall>c \<in> set v. c \<le> 0xFF" by (simp add: dropWhile_eq_Nil_conv)
  with assms(4) have "list_ex (\<lambda>c. c = 0x00 \<or> c = 0x0A \<or> c = 0x0D) v"
    by (auto simp: header_safe_def list_all_iff list_ex_iff)
  then show ?thesis
    unfolding header_value_def Nil headerValueNormalize_id[OF assms(1-3)] by simp
qed

lemma header_safe_append: "header_safe (a @ b) = (header_safe a \<and> header_safe b)"
  by (simp add: header_safe_def)

lemma digit_char:
  assumes "d < 10"
  shows "(of_nat (0x30 + d) :: jschar) \<in> set (js ''0123456789'')"
proof -
  from assms have "d = 0 \<or> d = 1 \<or> d = 2 \<or> d = 3 \<or> d = 4 \<or> d = 5 \<or> d = 6 \<or> d = 7 \<or> d = 8 \<or> d = 9"
    by arith
  then show ?thesis by (auto simp: js_def)
qed

lemma Number_toString_digits: "set (Number_toString n) \<subseteq> set (js ''0123456789'')"
proof (induction n rule: Number_toString.induct)
  case (1 n)
  show ?case
  proof (cases "n < 10")
    case True
    then show ?thesis using digit_char[of n] by (subst Number_toString.simps) simp
  next
    case False
    have "n mod 10 < 10" by simp
    then show ?thesis
      using False 1[OF False] digit_char[of "n mod 10"]
      by (subst Number_toString.simps) simp
  qed
qed

lemma Number_toString_nonempty: "Number_toString n \<noteq> []"
  by (subst Number_toString.simps) simp

lemma digits_plain:
  assumes "c \<in> set (js ''0123456789'')"
  shows "\<not> isHTTPWhitespace c \<and> c \<le> 0xFF \<and> c \<noteq> 0x00 \<and> c \<noteq> 0x0A \<and> c \<noteq> 0x0D"
  using assms by (auto simp: js_def isHTTPWhitespace_def)

lemma header_value_Number_toString: "header_value (Number_toString n) = Returns (Number_toString n)"
proof (rule header_value_safe)
  show ne: "Number_toString n \<noteq> []" by (rule Number_toString_nonempty)
  from ne have "hd (Number_toString n) \<in> set (Number_toString n)" by simp
  then show "\<not> isHTTPWhitespace (hd (Number_toString n))"
    using Number_toString_digits digits_plain by blast
  from ne have "last (Number_toString n) \<in> set (Number_toString n)" by simp
  then show "\<not> isHTTPWhitespace (last (Number_toString n))"
    using Number_toString_digits digits_plain by blast
  show "header_safe (Number_toString n)"
    unfolding header_safe_def list_all_iff
    using Number_toString_digits digits_plain by blast
qed

lemma header_value_content_type: "header_value (js ''video/mp4'') = Returns (js ''video/mp4'')"
  by (rule header_value_safe) (simp_all add: js_def isHTTPWhitespace_def header_safe_def)

lemma header_value_cache_control:
  "header_value (js ''public, max-age=3600'') = Returns (js ''public, max-age=3600'')"
  by (rule header_value_safe) (simp_all add: js_def isHTTPWhitespace_def header_safe_def)

lemma disposition_shape:
  "js ''attachment; filename='' @ [0x22] @ f @ [0x22] \<noteq> []"
  "\<not> isHTTPWhitespace (hd (js ''attachment; filename='' @ [0x22] @ f @ [0x22]))"
  "\<not> isHTTPWhitespace (last (js ''attachment; filename='' @ [0x22] @ f @ [0x22]))"
  "header_safe (js ''attachment; filename='' @ [0x22] @ f @ [0x22]) = header_safe f"
  by (simp_all add: js_def isHTTPWhitespace_def header_safe_def)

lemma header_value_disposition:
  "header_safe f \<Longrightarrow>
   header_value (js ''attachment; filename='' @ [0x22] @ f @ [0x22])
     = Returns (js ''attachment; filename='' @ [0x22] @ f @ [0x22])"
  by (rule header_value_safe) (simp_all only: disposition_shape not_False_eq_True)

lemma header_value_disposition_unsafe:
  "\<not> header_safe f \<Longrightarrow>
   \<exists>e. header_value (js ''attachment; filename='' @ [0x22] @ f @ [0x22]) = Throws e"
  by (rule header_value_unsafe) (simp_all only: disposition_shape not_False_eq_True)

lemma relay_response_built:
  assumes "header_safe f"
  shows "NextResponse_new b
           [(js ''Content-Type'', js ''video/mp4''),
            (js ''Content-Disposition'', js ''attachment; filename='' @ [0x22] @ f @ [0x22]),
            (js ''Content-Length'', Number_toString n),
            (js ''Cache-Control'', js ''public, max-age=3600'')]
         = Returns (NextResponse 200
           [(js ''Content-Type'', js ''video/mp4''),
            (js ''Content-Disposition'', js ''attachment; filename='' @ [0x22] @ f @ [0x22]),
            (js ''Content-Length'', Number_toString n),
            (js ''Cache-Control'', js ''public, max-age=3600'')] b)"
  using header_value_disposition[OF assms]
  by (simp add: NextResponse_new_def header_value_content_type header_value_cache_control
      header_value_Number_toString)

lemma relay_response_throws:
  assumes "\<not> header_safe f"
  shows "\<exists>e. NextResponse_new b
           [(js ''Content-Type'', js ''video/mp4''),
            (js ''Content-Disposition'', js ''attachment; filename='' @ [0x22] @ f @ [0x22]),
            (js ''Content-Length'', Number_toString n),
            (js ''Cache-Control'', js ''public, max-age=3600'')]
         = Throws e"
  using header_value_disposition_unsafe[OF assms]
  by (auto simp: NextResponse_new_def header_value_content_type)

section \<open>The validator\<close>

text \<open>The status 400 is the answer to an invalid link and to nothing else.\<close>

lemma POST_status_after_validation:
  assumes "request_json request = Returns body" and "url body = Some s" and "tiktokRegex_test s"
  shows "init_status (fst (POST fetch request)) \<noteq> 400"
  using assms test_nonempty[of s]
  by (auto simp: POST_def Let_def POST_catch_def POST_upstream_error_def
      split: outcome.splits option.splits)

lemma POST_status_invalid:
  assumes "request_json request = Returns body" and "url body = Some s" and "\<not> tiktokRegex_test s"
  shows "init_status (fst (POST fetch request)) = 400"
  using assms by (simp add: POST_def)

text \<open>
  The contract as the specification words it fails on a link whose slash is followed
  by a line feed: \<^verbatim>\<open>tiktok.com/\<close> and a line feed has ``at least one more
  character'' after the slash, and the pattern rejects it.
\<close>

theorem validator_pattern_counterexample:
  "\<not> (tiktokRegex_test (js ''tiktok.com/'' @ [0x000A])
       \<longleftrightarrow> spec_url_pattern (js ''tiktok.com/'' @ [0x000A]))"
  by (simp add: tiktokRegex_test_iff url_pattern_dot_def spec_url_pattern_def url_prefixes_def
      js_def isLineTerminator_def)

text \<open>
  C2 (as amended). The validator returns true if and only if the candidate string
  consists of an optional \<^verbatim>\<open>http://\<close> or \<^verbatim>\<open>https://\<close>, an optional \<^verbatim>\<open>www.\<close>, the host
  \<^verbatim>\<open>tiktok.com\<close> or \<^verbatim>\<open>vm.tiktok.com\<close>, a \<^verbatim>\<open>/\<close> and at least one more character, the
  first of which is not a line terminator (LF, CR, U+2028, U+2029). The page and the
  server apply the same predicate: \<^verbatim>\<open>validateUrl\<close> returns exactly the verdict of the
  pattern, and \<^verbatim>\<open>POST\<close> answers a body with the link \<open>s\<close> with status 400 exactly
  when the pattern rejects \<open>s\<close>.
\<close>

theorem validator_pattern:
  "tiktokRegex_test s = url_pattern_dot s
   \<and> fst (validateUrl s) = tiktokRegex_test s
   \<and> (request_json request = Returns body \<and> url body = Some s
        \<longrightarrow> (init_status (fst (POST fetch request)) = 400) = (\<not> tiktokRegex_test s))"
  using tiktokRegex_test_iff[of s] validateUrl_test[of s]
    POST_status_after_validation[of request body s fetch]
    POST_status_invalid[of request body s fetch]
  by blast

theorem validator_pattern_witness:
  "request_json demo_request = Returns \<lparr> url = Some demo_url \<rparr>
   \<and> url_pattern_dot demo_url
   \<and> fst (validateUrl demo_url)
   \<and> init_status (fst (POST (upstream 200 demo_envelope) demo_request)) \<noteq> 400"
  using validator_pattern[of demo_url demo_request "\<lparr> url = Some demo_url \<rparr>" "upstream 200 demo_envelope"]
    demo_url_test demo_request_json
  by simp

section \<open>The Resolver\<close>

text \<open>
  C1. When the request carries a valid link, the upstream answers with a successful
  transport status and an envelope with \<^verbatim>\<open>code = 0\<close> whose data is fully populated
  (cover, author nickname, play and wmplay present, the title present and not empty),
  the Resolver answers with \<^verbatim>\<open>success = true\<close> and maps \<^verbatim>\<open>cover\<close> to \<^verbatim>\<open>thumbnail\<close>,
  \<^verbatim>\<open>title\<close> to \<^verbatim>\<open>title\<close> and \<^verbatim>\<open>description\<close>, \<^verbatim>\<open>author.nickname\<close> to \<^verbatim>\<open>author\<close>,
  \<^verbatim>\<open>play\<close> to \<^verbatim>\<open>downloadUrl\<close> and \<^verbatim>\<open>wmplay\<close> to \<^verbatim>\<open>noWatermarkUrl\<close>.
\<close>

theorem resolver_maps_fields:
  assumes "request_json request = Returns body" and "url body = Some u"
    and "tiktokRegex_test u" and "encodeURIComponent u = Returns q"
    and "fetch (js ''https://www.tikwm.com/api/?url='' @ q) userAgent = Returns response"
    and "ok response" and "json response = Returns tikwmData"
    and "code tikwmData = 0" and "TikWMResponse.data tikwmData = Some d"
    and "TikWMData.title d = Some t" and "t \<noteq> []" and "cover d = Some c"
    and "TikWMData.author d = Some a" and "nickname a = Some n"
    and "play d = Some p" and "wmplay d = Some w"
  shows "fst (POST fetch request) =
     NextResponse 200 []
       (DownloadJson
          \<lparr> success = True,
            message = js ''V'' @ [0x00ED] @ js ''deo obtido com sucesso'',
            data = Some \<lparr> title = t, thumbnail = Some c, author = Some n,
                          description = Some t, downloadUrl = Some p,
                          noWatermarkUrl = Some w \<rparr> \<rparr>)"
  using assms test_nonempty[of u] by (simp add: POST_def responseData_def)

theorem resolver_maps_fields_witness:
  "tiktokRegex_test demo_url \<and> ok \<lparr> status = 200, json = Returns demo_envelope, arrayBuffer = Throws Thrown \<rparr> \<and>
   fst (POST (upstream 200 demo_envelope) demo_request) =
     NextResponse 200 []
       (DownloadJson
          \<lparr> success = True,
            message = js ''V'' @ [0x00ED] @ js ''deo obtido com sucesso'',
            data = Some \<lparr> title = js ''Funny Cat'', thumbnail = Some (js ''http://x/thumb.jpg''),
                          author = Some (js ''DemoUser''),
                          description = Some (js ''Funny Cat''),
                          downloadUrl = Some (js ''http://x/wm.mp4''),
                          noWatermarkUrl = Some (js ''http://x/nowm.mp4'') \<rparr> \<rparr>)"
proof -
  have ok: "ok \<lparr> status = 200, json = Returns demo_envelope, arrayBuffer = Throws Thrown \<rparr>"
    by (simp add: ok_def)
  have "fst (POST (upstream 200 demo_envelope) demo_request) =
     NextResponse 200 []
       (DownloadJson
          \<lparr> success = True,
            message = js ''V'' @ [0x00ED] @ js ''deo obtido com sucesso'',
            data = Some \<lparr> title = js ''Funny Cat'', thumbnail = Some (js ''http://x/thumb.jpg''),
                          author = Some (js ''DemoUser''),
                          description = Some (js ''Funny Cat''),
                          downloadUrl = Some (js ''http://x/wm.mp4''),
                          noWatermarkUrl = Some (js ''http://x/nowm.mp4'') \<rparr> \<rparr>)"
    by (rule resolver_maps_fields[where body = "\<lparr> url = Some demo_url \<rparr>" and u = demo_url
          and tikwmData = demo_envelope and d = demo_data
          and a = "\<lparr> nickname = Some (js ''DemoUser''), unique_id = None \<rparr>",
          OF _ _ demo_url_test demo_url_encoded _ ok])
       (simp_all add: demo_request_def upstream_def demo_api_url_def demo_envelope_def demo_data_def js_def)
  with ok demo_url_test show ?thesis by simp
qed

text \<open>
  C3. A request whose link is missing, empty or rejected by the pattern is answered
  with status 400 and one of the two messages for invalid input, and the handler
  calls \<^verbatim>\<open>fetch\<close> not once.
\<close>

theorem resolver_rejects_invalid:
  assumes "request_json request = Returns body"
    and "url body = None \<or> url body = Some [] \<or> (url body = Some u \<and> \<not> tiktokRegex_test u)"
  shows "init_status (fst (POST fetch request)) = 400
       \<and> init_body (fst (POST fetch request))
           \<in> {ErrorJson (js ''URL '' @ [0x00E9] @ js '' obrigat'' @ [0x00F3] @ js ''ria'') None,
              ErrorJson (js ''URL inv'' @ [0x00E1] @ js ''lida do TikTok'') None}
       \<and> fetch_calls (snd (POST fetch request)) = []"
  using assms by (auto simp: POST_def)

theorem resolver_rejects_invalid_witness:
  "\<not> tiktokRegex_test (js ''not-a-url'')
   \<and> init_status (fst (POST (upstream 200 demo_envelope) invalid_request)) = 400
   \<and> fetch_calls (snd (POST (upstream 200 demo_envelope) invalid_request)) = []"
proof -
  have r: "request_json invalid_request = Returns \<lparr> url = Some (js ''not-a-url'') \<rparr>"
    by (simp add: invalid_request_def)
  have u: "url \<lparr> url = Some (js ''not-a-url'') \<rparr> = None \<or> url \<lparr> url = Some (js ''not-a-url'') \<rparr> = Some []
     \<or> (url \<lparr> url = Some (js ''not-a-url'') \<rparr> = Some (js ''not-a-url'') \<and> \<not> tiktokRegex_test (js ''not-a-url''))"
    using not_a_url by simp
  from resolver_rejects_invalid[OF r u, of "upstream 200 demo_envelope"] not_a_url
  show ?thesis by simp
qed

text \<open>
  A gateway that answers with status 502 and a page of HTML: \<^verbatim>\<open>response.json()\<close> of line
  74 rejects before line 76 looks at the transport status, and the answer of the
  Resolver is the one of the catch block, with details, not the one of lines 78 to 81.
\<close>

theorem resolver_upstream_failure_counterexample:
  "\<not> ok \<lparr> status = 502,
            json = Throws (Error (js ''Unexpected token < in JSON at position 0'')),
            arrayBuffer = Throws Thrown \<rparr>
   \<and> fst (POST bad_gateway demo_request) =
       NextResponse 500 []
         (ErrorJson (js ''Erro ao processar o v'' @ [0x00ED] @ js ''deo'')
            (Some (js ''Unexpected token < in JSON at position 0'')))
   \<and> fst (POST bad_gateway demo_request) \<noteq>
       NextResponse 500 []
         (ErrorJson (js ''Erro ao obter informa'' @ [0x00E7, 0x00F5] @ js ''es do v''
            @ [0x00ED] @ js ''deo do TikTok. Verifique se o link est'' @ [0x00E1]
            @ js '' correto.'') None)"
  using demo_url_test test_nonempty[OF demo_url_test]
  by (simp add: POST_def demo_request_json demo_url_encoded bad_gateway_def ok_def
      POST_catch_def error_details_def)

text \<open>
  C4 (as amended). When the body of the upstream answer parses as an envelope and the
  transport status is not successful, or the code of the envelope is not 0, or its
  data is absent, the Resolver answers with status 500 and the message of an upstream
  failure, without details, and the answer has no \<^verbatim>\<open>data\<close> field. When the body of
  the upstream answer does not parse, whatever the transport status, the catch block
  answers: status 500, the message of an internal error with the message of the
  exception as details, and no \<^verbatim>\<open>data\<close> field either.
\<close>

theorem resolver_upstream_failure:
  assumes "request_json request = Returns body" and "url body = Some u"
    and "tiktokRegex_test u" and "encodeURIComponent u = Returns q"
    and "fetch (js ''https://www.tikwm.com/api/?url='' @ q) userAgent = Returns response"
  shows "(json response = Returns tikwmData
          \<and> (\<not> ok response \<or> code tikwmData \<noteq> 0 \<or> TikWMResponse.data tikwmData = None)
          \<longrightarrow> fst (POST fetch request) =
                NextResponse 500 []
                  (ErrorJson (js ''Erro ao obter informa'' @ [0x00E7, 0x00F5] @ js ''es do v''
                     @ [0x00ED] @ js ''deo do TikTok. Verifique se o link est'' @ [0x00E1]
                     @ js '' correto.'') None)
              \<and> data_field (fst (POST fetch request)) = None)
       \<and> (json response = Throws e
          \<longrightarrow> fst (POST fetch request) =
                NextResponse 500 []
                  (ErrorJson (js ''Erro ao processar o v'' @ [0x00ED] @ js ''deo'')
                     (Some (error_details e)))
              \<and> data_field (fst (POST fetch request)) = None)"
proof (cases "json response")
  case (Throws e')
  with assms test_nonempty[of u] show ?thesis
    by (simp add: POST_def POST_catch_def data_field_def)
next
  case (Returns env)
  with assms test_nonempty[of u] show ?thesis
    by (auto simp: POST_def POST_upstream_error_def data_field_def)
qed

theorem resolver_upstream_failure_witness:
  "\<not> ok \<lparr> status = 502, json = Returns failed_envelope, arrayBuffer = Throws Thrown \<rparr>
   \<and> code failed_envelope \<noteq> 0
   \<and> fst (POST (upstream 502 failed_envelope) demo_request) =
           NextResponse 500 []
             (ErrorJson (js ''Erro ao obter informa'' @ [0x00E7, 0x00F5] @ js ''es do v'' @ [0x00ED]
                @ js ''deo do TikTok. Verifique se o link est'' @ [0x00E1] @ js '' correto.'') None)
   \<and> data_field (fst (POST (upstream 502 failed_envelope) demo_request)) = None"
proof -
  have c: "code failed_envelope \<noteq> 0" by (simp add: failed_envelope_def)
  have n: "\<not> ok \<lparr> status = 502, json = Returns failed_envelope, arrayBuffer = Throws Thrown \<rparr>"
    by (simp add: ok_def)
  have "(json \<lparr> status = 502, json = Returns failed_envelope, arrayBuffer = Throws Thrown \<rparr>
            = Returns failed_envelope
          \<and> (\<not> ok \<lparr> status = 502, json = Returns failed_envelope, arrayBuffer = Throws Thrown \<rparr>
              \<or> code failed_envelope \<noteq> 0 \<or> TikWMResponse.data failed_envelope = None)
          \<longrightarrow> fst (POST (upstream 502 failed_envelope) demo_request) =
                NextResponse 500 []
                  (ErrorJson (js ''Erro ao obter informa'' @ [0x00E7, 0x00F5] @ js ''es do v''
                     @ [0x00ED] @ js ''deo do TikTok. Verifique se o link est'' @ [0x00E1]
                     @ js '' correto.'') None)
              \<and> data_field (fst (POST (upstream 502 failed_envelope) demo_request)) = None)
       \<and> (json \<lparr> status = 502, json = Returns failed_envelope, arrayBuffer = Throws Thrown \<rparr>
            = Throws Thrown
          \<longrightarrow> fst (POST (upstream 502 failed_envelope) demo_request) =
                NextResponse 500 []
                  (ErrorJson (js ''Erro ao processar o v'' @ [0x00ED] @ js ''deo'')
                     (Some (error_details Thrown)))
              \<and> data_field (fst (POST (upstream 502 failed_envelope) demo_request)) = None)"
    by (rule resolver_upstream_failure[where body = "\<lparr> url = Some demo_url \<rparr>" and u = demo_url
          and q = "js ''https%3A%2F%2Fwww.tiktok.com%2F%40demo%2Fvideo%2F123''"])
       (simp_all add: demo_request_json demo_url_test demo_url_encoded demo_upstream)
  with c n show ?thesis by (simp add: data_field_def)
qed

text \<open>
  The example of the specification with the author object left out: the Resolver
  answers with status 500 and the message of the catch block, not with a success.
\<close>

theorem resolver_author_absent_counterexample:
  "fst (POST (upstream 200 no_author_envelope) demo_request) =
     NextResponse 500 []
       (ErrorJson (js ''Erro ao processar o v'' @ [0x00ED] @ js ''deo'')
          (Some (js ''Cannot read properties of undefined (reading '' @ [0x27] @ js ''nickname''
                 @ [0x27] @ js '')'')))"
  using demo_url_test test_nonempty[OF demo_url_test]
  by (simp add: POST_def demo_request_json demo_url_encoded demo_upstream ok_def
      no_author_envelope_def demo_data_def responseData_def POST_catch_def error_details_def
      nickname_TypeError_def)

text \<open>
  C5 (as amended). When a successful upstream envelope (successful transport,
  \<^verbatim>\<open>code = 0\<close>, data present) has no author object, the Resolver does not raise:
  reading \<^verbatim>\<open>data.author.nickname\<close> throws a \<^verbatim>\<open>TypeError\<close>, the catch block of the
  handler takes it, and the Resolver answers with status 500, the error message of
  the catch block with the message of the exception as details, and no \<^verbatim>\<open>data\<close>
  field.
\<close>

theorem resolver_author_absent:
  assumes "request_json request = Returns body" and "url body = Some u"
    and "tiktokRegex_test u" and "encodeURIComponent u = Returns q"
    and "fetch (js ''https://www.tikwm.com/api/?url='' @ q) userAgent = Returns response"
    and "ok response" and "json response = Returns tikwmData"
    and "code tikwmData = 0" and "TikWMResponse.data tikwmData = Some d"
    and "TikWMData.author d = None"
  shows "fst (POST fetch request) =
           NextResponse 500 []
             (ErrorJson (js ''Erro ao processar o v'' @ [0x00ED] @ js ''deo'')
                (Some (js ''Cannot read properties of undefined (reading '' @ [0x27]
                       @ js ''nickname'' @ [0x27] @ js '')'')))
       \<and> data_field (fst (POST fetch request)) = None"
  using assms test_nonempty[of u]
  by (simp add: POST_def responseData_def POST_catch_def error_details_def
      nickname_TypeError_def data_field_def)

theorem resolver_author_absent_witness:
  "TikWMData.author (demo_data \<lparr> TikWMData.author := None \<rparr>) = None
   \<and> init_status (fst (POST (upstream 200 no_author_envelope) demo_request)) = 500
   \<and> data_field (fst (POST (upstream 200 no_author_envelope) demo_request)) = None"
proof -
  have e: "code no_author_envelope = 0"
     "TikWMResponse.data no_author_envelope = Some (demo_data \<lparr> TikWMData.author := None \<rparr>)"
    by (simp_all add: no_author_envelope_def)
  have a: "TikWMData.author (demo_data \<lparr> TikWMData.author := None \<rparr>) = None" by simp
  have "fst (POST (upstream 200 no_author_envelope) demo_request) =
           NextResponse 500 []
             (ErrorJson (js ''Erro ao processar o v'' @ [0x00ED] @ js ''deo'')
                (Some (js ''Cannot read properties of undefined (reading '' @ [0x27]
                       @ js ''nickname'' @ [0x27] @ js '')'')))
       \<and> data_field (fst (POST (upstream 200 no_author_envelope) demo_request)) = None"
    by (rule resolver_author_absent[where body = "\<lparr> url = Some demo_url \<rparr>" and u = demo_url
          and q = "js ''https%3A%2F%2Fwww.tiktok.com%2F%40demo%2Fvideo%2F123''"
          and response = "\<lparr> status = 200, json = Returns no_author_envelope, arrayBuffer = Throws Thrown \<rparr>"
          and tikwmData = no_author_envelope and d = "demo_data \<lparr> TikWMData.author := None \<rparr>"])
       (simp_all add: demo_request_json demo_url_test demo_url_encoded demo_upstream ok_200 e)
  with a show ?thesis by (simp add: data_field_def)
qed

text \<open>
  What does leave the \<^verbatim>\<open>author\<close> field out of a success is an author object without
  nickname.
\<close>

lemma resolver_nickname_absent:
  assumes "request_json request = Returns body" and "url body = Some u"
    and "tiktokRegex_test u" and "encodeURIComponent u = Returns q"
    and "fetch (js ''https://www.tikwm.com/api/?url='' @ q) userAgent = Returns response"
    and "ok response" and "json response = Returns tikwmData"
    and "code tikwmData = 0" and "TikWMResponse.data tikwmData = Some d"
    and "TikWMData.author d = Some a" and "nickname a = None"
  shows "\<exists>rd. data_field (fst (POST fetch request)) = Some rd \<and> ResolvedMedia.author rd = None
              \<and> init_status (fst (POST fetch request)) = 200"
  using assms test_nonempty[of u]
  by (simp add: POST_def responseData_def data_field_def)

text \<open>
  C9. When an upstream envelope has the empty string as title, the Resolver answers
  a successful one (successful transport, \<^verbatim>\<open>code = 0\<close>, author object present) with
  the fixed title \<^verbatim>\<open>TikTok Video\<close>; and whatever the envelope is otherwise, no answer
  of the Resolver carries another title than this one.
\<close>

theorem resolver_default_title:
  assumes "request_json request = Returns body" and "url body = Some u"
    and "tiktokRegex_test u" and "encodeURIComponent u = Returns q"
    and "fetch (js ''https://www.tikwm.com/api/?url='' @ q) userAgent = Returns response"
    and "json response = Returns tikwmData"
    and "TikWMResponse.data tikwmData = Some d"
    and "TikWMData.title d = Some []"
  shows "(ok response \<and> code tikwmData = 0 \<and> TikWMData.author d = Some a \<longrightarrow>
          fst (POST fetch request) =
            NextResponse 200 []
              (DownloadJson
                 \<lparr> success = True,
                   message = js ''V'' @ [0x00ED] @ js ''deo obtido com sucesso'',
                   data = Some \<lparr> title = js ''TikTok Video'', thumbnail = cover d,
                                 author = nickname a, description = Some [],
                                 downloadUrl = play d, noWatermarkUrl = wmplay d \<rparr> \<rparr>))
       \<and> (data_field (fst (POST fetch request)) = Some rd \<longrightarrow>
            ResolvedMedia.title rd = js ''TikTok Video'')"
proof -
  have success: "fst (POST fetch request) =
            NextResponse 200 []
              (DownloadJson
                 \<lparr> success = True,
                   message = js ''V'' @ [0x00ED] @ js ''deo obtido com sucesso'',
                   data = Some \<lparr> title = js ''TikTok Video'', thumbnail = cover d,
                                 author = nickname a, description = Some [],
                                 downloadUrl = play d, noWatermarkUrl = wmplay d \<rparr> \<rparr>)"
    if "ok response" and "code tikwmData = 0" and "TikWMData.author d = Some a"
    using that assms test_nonempty[of u] by (simp add: POST_def responseData_def)
  have "ResolvedMedia.title rd = js ''TikTok Video''"
    if "data_field (fst (POST fetch request)) = Some rd"
    using that assms test_nonempty[of u]
    by (cases "TikWMData.author d")
       (auto simp: POST_def Let_def responseData_def data_field_def POST_upstream_error_def
          POST_catch_def split: if_splits)
  with success show ?thesis by blast
qed

theorem resolver_default_title_witness:
  "TikWMData.title (demo_data \<lparr> TikWMData.title := Some [] \<rparr>) = Some []
   \<and> map_option ResolvedMedia.title (data_field (fst (POST (upstream 200 untitled_envelope) demo_request)))
       = Some (js ''TikTok Video'')"
proof -
  have e: "code untitled_envelope = 0"
     "TikWMResponse.data untitled_envelope = Some (demo_data \<lparr> TikWMData.title := Some [] \<rparr>)"
    by (simp_all add: untitled_envelope_def)
  have a: "TikWMData.author (demo_data \<lparr> TikWMData.title := Some [] \<rparr>)
            = Some \<lparr> nickname = Some (js ''DemoUser''), unique_id = None \<rparr>"
    by (simp add: demo_data_def)
  have t: "TikWMData.title (demo_data \<lparr> TikWMData.title := Some [] \<rparr>) = Some []" by simp
  have "(ok \<lparr> status = 200, json = Returns untitled_envelope, arrayBuffer = Throws Thrown \<rparr>
          \<and> code untitled_envelope = 0
          \<and> TikWMData.author (demo_data \<lparr> TikWMData.title := Some [] \<rparr>)
              = Some \<lparr> nickname = Some (js ''DemoUser''), unique_id = None \<rparr> \<longrightarrow>
     fst (POST (upstream 200 untitled_envelope) demo_request) =
     NextResponse 200 []
       (DownloadJson
          \<lparr> success = True,
            message = js ''V'' @ [0x00ED] @ js ''deo obtido com sucesso'',
            data = Some \<lparr> title = js ''TikTok Video'',
                          thumbnail = cover (demo_data \<lparr> TikWMData.title := Some [] \<rparr>),
                          author = nickname \<lparr> nickname = Some (js ''DemoUser''), unique_id = None \<rparr>,
                          description = Some [],
                          downloadUrl = play (demo_data \<lparr> TikWMData.title := Some [] \<rparr>),
                          noWatermarkUrl = wmplay (demo_data \<lparr> TikWMData.title := Some [] \<rparr>) \<rparr> \<rparr>))
     \<and> (data_field (fst (POST (upstream 200 untitled_envelope) demo_request)) = Some rd \<longrightarrow>
            ResolvedMedia.title rd = js ''TikTok Video'')" for rd
    by (rule resolver_default_title[where body = "\<lparr> url = Some demo_url \<rparr>" and u = demo_url
          and q = "js ''https%3A%2F%2Fwww.tiktok.com%2F%40demo%2Fvideo%2F123''"
          and response = "\<lparr> status = 200, json = Returns untitled_envelope, arrayBuffer = Throws Thrown \<rparr>"
          and tikwmData = untitled_envelope])
       (simp_all add: demo_request_json demo_url_test demo_url_encoded demo_upstream e)
  with t e a show ?thesis by (simp add: data_field_def ok_200)
qed

section \<open>The Relay\<close>

text \<open>
  The Relay announces the requested file name as it is. Asked for \<^verbatim>\<open>a"b.mp4\<close>, it
  announces \<^verbatim>\<open>a"b.mp4\<close>, which is not a sanitized name and which the sanitizer of
  the page would have changed.
\<close>

theorem relay_headers_counterexample:
  "content_disposition_filename
     (fst (GET (media_host 200 [1, 2, 3])
            (relay_request [(js ''url'', media_url), (js ''filename'', quoted_name)])))
     = Some quoted_name
   \<and> \<not> sanitized quoted_name
   \<and> sanitizedFilename quoted_name \<noteq> quoted_name"
proof -
  have q: "quoted_name \<noteq> []" by (simp add: quoted_name_def js_def)
  have hs: "header_safe quoted_name" by (simp add: quoted_name_def js_def header_safe_def)
  have "fst (GET (media_host 200 [1, 2, 3])
            (relay_request [(js ''url'', media_url), (js ''filename'', quoted_name)]))
        = NextResponse 200
             [(js ''Content-Type'', js ''video/mp4''),
              (js ''Content-Disposition'', js ''attachment; filename='' @ [0x22] @ quoted_name @ [0x22]),
              (js ''Content-Length'', Number_toString (Suc (Suc (Suc 0)))),
              (js ''Cache-Control'', js ''public, max-age=3600'')]
             (Bytes [1, 2, 3])"
    using q media_url_nonempty relay_response_built[OF hs]
    by (simp add: GET_def relay_filename_def relay_request_url relay_request_filename
        media_host_reply ok_200)
  then have "content_disposition_filename
     (fst (GET (media_host 200 [1, 2, 3])
            (relay_request [(js ''url'', media_url), (js ''filename'', quoted_name)])))
     = Some quoted_name"
    using q header_names_distinct
    by (simp add: content_disposition_filename_def header_of_def Let_def)
  moreover have "\<not> sanitized quoted_name"
    by (simp add: sanitized_def quoted_name_def js_def isAlnum_def)
  moreover have "sanitizedFilename quoted_name \<noteq> quoted_name"
    by (simp add: sanitizedFilename_def quoted_name_def js_def isAlnum_def)
  ultimately show ?thesis by simp
qed

text \<open>
  C6 (as amended). Take a relay whose media URL is fetched with success and whose
  body of N bytes is read, and let \<open>f\<close> be the requested file name, unchanged (the
  fixed name when none is requested). When \<open>f\<close> can stand in a header (no code unit
  above 0xFF, no NUL, LF or CR), the relay succeeds and the Relay answers with the
  content type \<^verbatim>\<open>video/mp4\<close>, a content length that is N in decimal digits, the
  header \<^verbatim>\<open>Content-Disposition: attachment; filename="f"\<close> and a cache lifetime of
  3600 seconds. When \<open>f\<close> cannot stand in a header, building the response throws and
  the Relay answers with status 500, the message of the catch block and no such
  header.
\<close>

theorem relay_headers:
  assumes "searchParams_get (searchParams request) (js ''url'') = Some v" and "v \<noteq> []"
    and "fetch v userAgent = Returns response" and "ok response"
    and "arrayBuffer response = Returns videoBuffer"
  shows "relay_filename request =
           (case searchParams_get (searchParams request) (js ''filename'') of
              None \<Rightarrow> js ''tiktok_video.mp4''
            | Some f \<Rightarrow> if f = [] then js ''tiktok_video.mp4'' else f)
       \<and> (header_safe (relay_filename request) \<longrightarrow>
            fst (GET fetch request) =
              NextResponse 200
                [(js ''Content-Type'', js ''video/mp4''),
                 (js ''Content-Disposition'',
                  js ''attachment; filename='' @ [0x22] @ relay_filename request @ [0x22]),
                 (js ''Content-Length'', Number_toString (length videoBuffer)),
                 (js ''Cache-Control'', js ''public, max-age=3600'')]
                (Bytes videoBuffer)
            \<and> decimal_value (Number_toString (length videoBuffer)) = length videoBuffer)
       \<and> (\<not> header_safe (relay_filename request) \<longrightarrow>
            (\<exists>details. fst (GET fetch request) =
               NextResponse 500 []
                 (ErrorJson (js ''Erro ao baixar o v'' @ [0x00ED] @ js ''deo'') (Some details))))"
proof -
  have built: "fst (GET fetch request) =
              NextResponse 200
                [(js ''Content-Type'', js ''video/mp4''),
                 (js ''Content-Disposition'',
                  js ''attachment; filename='' @ [0x22] @ relay_filename request @ [0x22]),
                 (js ''Content-Length'', Number_toString (length videoBuffer)),
                 (js ''Cache-Control'', js ''public, max-age=3600'')]
                (Bytes videoBuffer)"
    if "header_safe (relay_filename request)"
    using assms relay_response_built[OF that] by (simp add: GET_def)
  have thrown: "\<exists>details. fst (GET fetch request) =
               NextResponse 500 []
                 (ErrorJson (js ''Erro ao baixar o v'' @ [0x00ED] @ js ''deo'') (Some details))"
    if "\<not> header_safe (relay_filename request)"
  proof -
    from relay_response_throws[OF that] obtain e where
      "NextResponse_new (Bytes videoBuffer)
           [(js ''Content-Type'', js ''video/mp4''),
            (js ''Content-Disposition'',
             js ''attachment; filename='' @ [0x22] @ relay_filename request @ [0x22]),
            (js ''Content-Length'', Number_toString (length videoBuffer)),
            (js ''Cache-Control'', js ''public, max-age=3600'')]
         = Throws e"
      by blast
    with assms show ?thesis by (simp add: GET_def GET_catch_def)
  qed
  from built thrown show ?thesis
    by (simp add: relay_filename_def decimal_value_Number_toString)
qed

theorem relay_headers_witness:
  "ok \<lparr> status = 200, json = Throws (Error (js ''Unexpected token'')), arrayBuffer = Returns [1, 2, 3] \<rparr>
   \<and> header_safe (js ''Funny_Cat.mp4'')
   \<and> fst (GET (media_host 200 [1, 2, 3])
             (relay_request [(js ''url'', media_url), (js ''filename'', js ''Funny_Cat.mp4'')])) =
           NextResponse 200
             [(js ''Content-Type'', js ''video/mp4''),
              (js ''Content-Disposition'',
               js ''attachment; filename='' @ [0x22] @ js ''Funny_Cat.mp4'' @ [0x22]),
              (js ''Content-Length'', js ''3''),
              (js ''Cache-Control'', js ''public, max-age=3600'')]
             (Bytes [1, 2, 3])"
proof -
  have n: "js ''Funny_Cat.mp4'' \<noteq> []" by (simp add: js_def)
  have hs: "header_safe (js ''Funny_Cat.mp4'')" by (simp add: js_def header_safe_def)
  have f: "relay_filename (relay_request [(js ''url'', media_url), (js ''filename'', js ''Funny_Cat.mp4'')])
             = js ''Funny_Cat.mp4''"
    using n by (simp add: relay_filename_def relay_request_filename)
  from relay_headers[where request = "relay_request [(js ''url'', media_url), (js ''filename'', js ''Funny_Cat.mp4'')]"
      and v = media_url and fetch = "media_host 200 [1, 2, 3]"
      and response = "\<lparr> status = 200, json = Throws (Error (js ''Unexpected token'')),
                         arrayBuffer = Returns [1, 2, 3] \<rparr>"
      and videoBuffer = "[1, 2, 3]",
      OF relay_request_url media_url_nonempty media_host_reply ok_200]
  show ?thesis
    using hs by (simp add: f ok_200 Number_toString_3)
qed

text \<open>
  The name of one code unit U+732B before \<^verbatim>\<open>.mp4\<close> cannot stand in a header: asked
  for it, the Relay fetches the video and then answers with status 500.
\<close>

lemma relay_unwritable_filename:
  "init_status
     (fst (GET (media_host 200 [1, 2, 3])
            (relay_request [(js ''url'', media_url), (js ''filename'', 0x732B # js ''.mp4'')])))
   = 500"
proof -
  have f: "relay_filename (relay_request [(js ''url'', media_url), (js ''filename'', 0x732B # js ''.mp4'')])
             = 0x732B # js ''.mp4''"
    by (simp add: relay_filename_def relay_request_filename)
  have "\<not> header_safe (0x732B # js ''.mp4'')" by (simp add: header_safe_def)
  with relay_response_throws[of "0x732B # js ''.mp4''" "Bytes [1, 2, 3]" "Suc (Suc (Suc 0))"]
  obtain e where "NextResponse_new (Bytes [1, 2, 3])
           [(js ''Content-Type'', js ''video/mp4''),
            (js ''Content-Disposition'',
             js ''attachment; filename='' @ [0x22] @ (0x732B # js ''.mp4'') @ [0x22]),
            (js ''Content-Length'', Number_toString (Suc (Suc (Suc 0)))),
            (js ''Cache-Control'', js ''public, max-age=3600'')]
         = Throws e"
    by blast
  then show ?thesis
    using media_url_nonempty
    by (simp add: GET_def f relay_request_url media_host_reply ok_200 GET_catch_def)
qed

text \<open>
  C7. A request to the Relay without \<^verbatim>\<open>url\<close> parameter is answered with status 400
  and the message for invalid input, and the handler calls \<^verbatim>\<open>fetch\<close> not once.
\<close>

theorem relay_missing_url:
  assumes "searchParams_get (searchParams request) (js ''url'') = None"
  shows "fst (GET fetch request) =
           NextResponse 400 []
             (ErrorJson (js ''URL do v'' @ [0x00ED] @ js ''deo '' @ [0x00E9] @ js '' obrigat''
                         @ [0x00F3] @ js ''ria'') None)
       \<and> fetch_calls (snd (GET fetch request)) = []"
  using assms by (simp add: GET_def)

theorem relay_missing_url_witness:
  "searchParams_get (searchParams (relay_request [(js ''filename'', js ''Funny_Cat.mp4'')])) (js ''url'') = None
   \<and> init_status (fst (GET (media_host 200 [1, 2, 3]) (relay_request [(js ''filename'', js ''Funny_Cat.mp4'')]))) = 400
   \<and> fetch_calls (snd (GET (media_host 200 [1, 2, 3]) (relay_request [(js ''filename'', js ''Funny_Cat.mp4'')]))) = []"
proof -
  have h: "searchParams_get (searchParams (relay_request [(js ''filename'', js ''Funny_Cat.mp4'')])) (js ''url'') = None"
    using filename_not_url by (simp add: relay_request_def searchParams_get_def)
  from relay_missing_url[OF h, of "media_host 200 [1, 2, 3]"] h show ?thesis by simp
qed

text \<open>
  C8. When the media host answers the Relay with a transport status that is not
  successful, the Relay answers with status 500 and the message of an upstream
  failure, and reports the status of the media host with \<^verbatim>\<open>console.error\<close>.
\<close>

theorem relay_upstream_failure:
  assumes "searchParams_get (searchParams request) (js ''url'') = Some v" and "v \<noteq> []"
    and "fetch v userAgent = Returns response" and "\<not> ok response"
  shows "fst (GET fetch request) =
           NextResponse 500 []
             (ErrorJson (js ''Falha ao baixar o v'' @ [0x00ED] @ js ''deo do servidor do TikTok'') None)
       \<and> console_errors (snd (GET fetch request)) =
           [[LogString (js ''Failed to fetch video:''), LogNumber (status response)]]"
  using assms by (simp add: GET_def)

theorem relay_upstream_failure_witness:
  "\<not> ok \<lparr> status = 403, json = Throws (Error (js ''Unexpected token'')), arrayBuffer = Returns [] \<rparr>
   \<and> init_status (fst (GET (media_host 403 []) (relay_request [(js ''url'', media_url)]))) = 500
   \<and> console_errors (snd (GET (media_host 403 []) (relay_request [(js ''url'', media_url)]))) =
           [[LogString (js ''Failed to fetch video:''), LogNumber 403]]"
proof -
  have n: "\<not> ok \<lparr> status = 403, json = Throws (Error (js ''Unexpected token'')), arrayBuffer = Returns [] \<rparr>"
    by (simp add: ok_def)
  have "fst (GET (media_host 403 []) (relay_request [(js ''url'', media_url)])) =
           NextResponse 500 []
             (ErrorJson (js ''Falha ao baixar o v'' @ [0x00ED] @ js ''deo do servidor do TikTok'') None)
       \<and> console_errors (snd (GET (media_host 403 []) (relay_request [(js ''url'', media_url)]))) =
           [[LogString (js ''Failed to fetch video:''),
             LogNumber (status \<lparr> status = 403, json = Throws (Error (js ''Unexpected token'')), arrayBuffer = Returns [] \<rparr>)]]"
    by (rule relay_upstream_failure[where v = media_url])
       (simp_all add: relay_request_url media_url_nonempty media_host_reply n)
  with n show ?thesis by simp
qed

text \<open>
  C10. For every request to the Relay whose \<^verbatim>\<open>url\<close> parameter is a string that is not
  empty, whatever its scheme and host, the handler calls \<^verbatim>\<open>fetch\<close> once, with exactly
  this string; and when the \<^verbatim>\<open>filename\<close> parameter is absent or empty, a
  successful relay announces the fixed name \<^verbatim>\<open>tiktok_video.mp4\<close>.
\<close>

theorem relay_fetches_any_url:
  assumes "searchParams_get (searchParams request) (js ''url'') = Some v" and "v \<noteq> []"
  shows "fetch_calls (snd (GET fetch request)) = [(v, userAgent)]
       \<and> ((searchParams_get (searchParams request) (js ''filename'') = None
            \<or> searchParams_get (searchParams request) (js ''filename'') = Some [])
           \<and> fetch v userAgent = Returns response \<and> ok response
           \<and> arrayBuffer response = Returns videoBuffer
          \<longrightarrow> header_of (fst (GET fetch request)) (js ''Content-Disposition'')
               = Some (js ''attachment; filename='' @ [0x22] @ js ''tiktok_video.mp4'' @ [0x22]))"
proof -
  have "fetch_calls (snd (GET fetch request)) = [(v, userAgent)]"
  proof (cases "fetch v userAgent")
    case (Throws e)
    with assms show ?thesis by (simp add: GET_def GET_catch_def)
  next
    case (Returns response)
    show ?thesis
    proof (cases "ok response")
      case False
      with assms Returns show ?thesis by (simp add: GET_def)
    next
      case True
      show ?thesis
      proof (cases "arrayBuffer response")
        case (Throws e)
        with assms Returns True show ?thesis by (simp add: GET_def GET_catch_def)
      next
        case buffer: (Returns videoBuffer)
        show ?thesis
        proof (cases "header_safe (relay_filename request)")
          case True
          with assms Returns \<open>ok response\<close> buffer relay_response_built[OF True]
          show ?thesis by (simp add: GET_def)
        next
          case False
          from relay_response_throws[OF False] obtain e where
            "NextResponse_new (Bytes videoBuffer)
               [(js ''Content-Type'', js ''video/mp4''),
                (js ''Content-Disposition'',
                 js ''attachment; filename='' @ [0x22] @ relay_filename request @ [0x22]),
                (js ''Content-Length'', Number_toString (length videoBuffer)),
                (js ''Cache-Control'', js ''public, max-age=3600'')]
             = Throws e"
            by blast
          with assms Returns \<open>ok response\<close> buffer show ?thesis
            by (simp add: GET_def GET_catch_def)
        qed
      qed
    qed
  qed
  moreover have "header_of (fst (GET fetch request)) (js ''Content-Disposition'')
               = Some (js ''attachment; filename='' @ [0x22] @ js ''tiktok_video.mp4'' @ [0x22])"
    if "searchParams_get (searchParams request) (js ''filename'') = None
            \<or> searchParams_get (searchParams request) (js ''filename'') = Some []"
      and "fetch v userAgent = Returns response" and "ok response"
      and "arrayBuffer response = Returns videoBuffer"
  proof -
    have d: "relay_filename request = js ''tiktok_video.mp4''"
      using that(1) by (auto simp: relay_filename_def)
    have "header_safe (js ''tiktok_video.mp4'')" by (simp add: js_def header_safe_def)
    from relay_response_built[OF this] that assms header_names_distinct show ?thesis
      by (simp add: GET_def d header_of_def)
  qed
  ultimately show ?thesis by simp
qed

theorem relay_fetches_any_url_witness:
  "media_url \<noteq> [] \<and> \<not> tiktokRegex_test media_url
   \<and> fetch_calls (snd (GET (media_host 200 [1, 2, 3]) (relay_request [(js ''url'', media_url)])))
       = [(media_url, userAgent)]
   \<and> header_of (fst (GET (media_host 200 [1, 2, 3]) (relay_request [(js ''url'', media_url)])))
         (js ''Content-Disposition'')
       = Some (js ''attachment; filename='' @ [0x22] @ js ''tiktok_video.mp4'' @ [0x22])"
proof -
  have f: "searchParams_get (searchParams (relay_request [(js ''url'', media_url)])) (js ''filename'') = None"
    using filename_not_url by (simp add: relay_request_def searchParams_get_def)
  have t: "\<not> tiktokRegex_test media_url"
    by (simp add: media_url_def tiktokRegex_test_iff url_pattern_dot_def url_prefixes_def js_def)
  from relay_fetches_any_url[where request = "relay_request [(js ''url'', media_url)]"
      and v = media_url and fetch = "media_host 200 [1, 2, 3]"
      and response = "\<lparr> status = 200, json = Throws (Error (js ''Unexpected token'')),
                         arrayBuffer = Returns [1, 2, 3] \<rparr>"
      and videoBuffer = "[1, 2, 3]", OF relay_request_url media_url_nonempty]
  show ?thesis
    using f t media_url_nonempty by (simp add: media_host_reply ok_200)
qed

end
